theory Spec2Isabelle
  imports Complex_Main
begin

section \<open>The order composer of the CRM dashboard\<close>

text \<open>
  The page component \<open>Home\<close> keeps its data in React state cells and changes them only
  through handlers that read the cells of the current render and call the setters. Each
  handler is modelled as a function from the state before to the state after; a handler
  that talks to the server also yields the request it sends and takes the server's answer
  as an argument. Handlers run one after the other, each on the state the previous one
  left: the page is rendered again between two actions of the user, and no other handler
  runs while one waits for the server.
\<close>

subsection \<open>Numbers\<close>

text \<open>
  A JavaScript number is a binary64 value: \<open>NaN\<close>, an infinity, or a finite value, kept here
  as the rational it denotes. The two zeros are one value here: the operations below (truth
  value, sum, product, \<open>toFixed\<close>) do not tell them apart.
\<close>

datatype number = NaN | Num rat | PlusInf | MinusInf

text \<open>
  Rounding to binary64, to the nearest value and to the even significand in a tie. For
  \<open>2^e \<le> a < 2^(e+1)\<close> the neighbours of \<open>a\<close> are the multiples of \<open>2^(e-52)\<close>, and of
  \<open>2^(-1074)\<close> below the normal range; a result of \<open>2^1024\<close> or more is an infinity. The
  first test for \<open>2^1024\<close> only saves the search for the exponent.
\<close>

definition pow2 :: "int \<Rightarrow> rat" where
  "pow2 q = (if 0 \<le> q then 2 ^ nat q else 1 / 2 ^ nat (- q))"

definition roundHalfEven :: "rat \<Rightarrow> int" where
  "roundHalfEven x =
     (let f = \<lfloor>x\<rfloor>; d = x - of_int f
      in if d < 1 / 2 then f else if 1 / 2 < d then f + 1 else if even f then f else f + 1)"

function expo :: "rat \<Rightarrow> int" where
  "expo a = (if a \<le> 0 then 0
             else if 2 \<le> a then expo (a / 2) + 1
             else if a < 1 then expo (a * 2) - 1
             else 0)"
  by pat_completeness auto
termination
proof (relation "measure (\<lambda>a. nat \<lfloor>a\<rfloor> + 2 * nat \<lceil>1 / a\<rceil>)")
  show "wf (measure (\<lambda>a. nat \<lfloor>a\<rfloor> + 2 * nat \<lceil>1 / a\<rceil>))"
    by simp
next
  fix a :: rat
  assume "\<not> a \<le> 0" and big: "2 \<le> a"
  have c1: "\<lceil>1 / a\<rceil> = 1"
    using big by (intro ceiling_unique) (simp_all add: field_simps)
  have c2: "\<lceil>1 / (a / 2)\<rceil> = 1"
    using big by (intro ceiling_unique) (simp_all add: field_simps)
  have "\<lfloor>a / 2\<rfloor> < \<lfloor>a\<rfloor>"
  proof -
    have "of_int \<lfloor>a / 2\<rfloor> \<le> a / 2" by (rule of_int_floor_le)
    also have "\<dots> \<le> a - 1" using big by simp
    also have "\<dots> < of_int \<lfloor>a\<rfloor>" by linarith
    finally show ?thesis by simp
  qed
  moreover have "0 \<le> \<lfloor>a / 2\<rfloor>" using big by simp
  ultimately show "(a / 2, a) \<in> measure (\<lambda>a. nat \<lfloor>a\<rfloor> + 2 * nat \<lceil>1 / a\<rceil>)"
    using c1 c2 big by simp
next
  fix a :: rat
  assume pos: "\<not> a \<le> 0" and "\<not> 2 \<le> a" and small: "a < 1"
  have f0: "\<lfloor>a\<rfloor> = 0"
    using pos small by (intro floor_unique) simp_all
  have apos: "0 < a" using pos by simp
  have c_ge: "2 \<le> \<lceil>1 / a\<rceil>"
  proof -
    have "1 < 1 / a" using apos small by (simp add: field_simps)
    then have "1 < \<lceil>1 / a\<rceil>" by (simp add: less_ceiling_iff)
    then show ?thesis by simp
  qed
  show "(a * 2, a) \<in> measure (\<lambda>a. nat \<lfloor>a\<rfloor> + 2 * nat \<lceil>1 / a\<rceil>)"
  proof (cases "a < 1 / 2")
    case True
    then have f2: "\<lfloor>a * 2\<rfloor> = 0"
      using apos by (intro floor_unique) simp_all
    have "1 / (a * 2) \<le> of_int \<lceil>1 / a\<rceil> / 2"
      using le_of_int_ceiling [of "1 / a"] apos by (simp add: field_simps)
    also have "\<dots> \<le> of_int (\<lceil>1 / a\<rceil> - 1)"
      using c_ge by simp
    finally have "1 / (a * 2) \<le> of_int (\<lceil>1 / a\<rceil> - 1)" .
    then have "\<lceil>1 / (a * 2)\<rceil> \<le> \<lceil>1 / a\<rceil> - 1"
      by (rule ceiling_le)
    moreover have "0 < \<lceil>1 / (a * 2)\<rceil>"
      using apos by simp
    ultimately show ?thesis
      using f0 f2 by simp
  next
    case False
    then have f2: "\<lfloor>a * 2\<rfloor> = 1"
      using small by (intro floor_unique) simp_all
    have c2: "\<lceil>1 / (a * 2)\<rceil> = 1"
      using False apos by (intro ceiling_unique) (simp_all add: field_simps)
    have "2 \<le> nat \<lceil>1 / a\<rceil>"
      using c_ge by linarith
    then show ?thesis
      by (simp add: f0 f2 c2)
  qed
qed

declare expo.simps [simp del]

definition round64 :: "rat \<Rightarrow> number" where
  "round64 r =
     (let a = \<bar>r\<bar>
      in if a = 0 then Num 0
         else if 2 ^ 1024 \<le> a then (if r < 0 then MinusInf else PlusInf)
         else
           let q = max (expo a - 52) (- 1074);
               v = of_int (roundHalfEven (a / pow2 q)) * pow2 q
           in if 2 ^ 1024 \<le> v then (if r < 0 then MinusInf else PlusInf)
              else Num (if r < 0 then - v else v))"

text \<open>The values \<open>NaN\<close> and \<open>0\<close> are the falsy numbers.\<close>

definition truthy :: "number \<Rightarrow> bool" where
  "truthy n = (case n of NaN \<Rightarrow> False | Num r \<Rightarrow> r \<noteq> 0 | PlusInf \<Rightarrow> True | MinusInf \<Rightarrow> True)"

text \<open>\<open>a || b\<close> on a number \<open>a\<close>, and on a property that may be missing (\<open>undefined\<close>).\<close>

definition js_or :: "number \<Rightarrow> number \<Rightarrow> number" where
  "js_or a b = (if truthy a then a else b)"

definition js_or_opt :: "number option \<Rightarrow> number \<Rightarrow> number" where
  "js_or_opt v b = (case v of None \<Rightarrow> b | Some a \<Rightarrow> js_or a b)"

text \<open>
  Sum and product: the exact result of two finite operands is rounded; \<open>NaN\<close> is
  contagious; opposite infinities add to \<open>NaN\<close>, and so does an infinity times zero.
\<close>

fun js_add :: "number \<Rightarrow> number \<Rightarrow> number" where
  "js_add (Num x) (Num y) = round64 (x + y)"
| "js_add NaN b = NaN"
| "js_add a NaN = NaN"
| "js_add PlusInf MinusInf = NaN"
| "js_add MinusInf PlusInf = NaN"
| "js_add PlusInf b = PlusInf"
| "js_add a PlusInf = PlusInf"
| "js_add MinusInf b = MinusInf"
| "js_add a MinusInf = MinusInf"

fun js_mul :: "number \<Rightarrow> number \<Rightarrow> number" where
  "js_mul (Num x) (Num y) = round64 (x * y)"
| "js_mul NaN b = NaN"
| "js_mul a NaN = NaN"
| "js_mul PlusInf (Num y) = (if y = 0 then NaN else if 0 < y then PlusInf else MinusInf)"
| "js_mul MinusInf (Num y) = (if y = 0 then NaN else if 0 < y then MinusInf else PlusInf)"
| "js_mul (Num x) PlusInf = (if x = 0 then NaN else if 0 < x then PlusInf else MinusInf)"
| "js_mul (Num x) MinusInf = (if x = 0 then NaN else if 0 < x then MinusInf else PlusInf)"
| "js_mul PlusInf PlusInf = PlusInf"
| "js_mul MinusInf MinusInf = PlusInf"
| "js_mul PlusInf MinusInf = MinusInf"
| "js_mul MinusInf PlusInf = MinusInf"

subsection \<open>Strings: white space, \<open>trim\<close>, \<open>parseInt\<close>, decimal digits\<close>

text \<open>
  A string is a list of 8-bit characters, so the strings of the model are those whose code
  units are below 256. The white space and line terminators of the language in that range
  are TAB, LF, VT, FF, CR, SP and NBSP.
\<close>

definition isWhiteSpace :: "char \<Rightarrow> bool" where
  "isWhiteSpace c = (c \<in> {CHR 0x09, CHR 0x0A, CHR 0x0B, CHR 0x0C, CHR 0x0D, CHR 0x20, CHR 0xA0})"

definition trimStart :: "string \<Rightarrow> string" where
  "trimStart s = dropWhile isWhiteSpace s"

definition trim :: "string \<Rightarrow> string" where
  "trim s = rev (dropWhile isWhiteSpace (rev (dropWhile isWhiteSpace s)))"

text \<open>The value of a character as a digit: \<open>0\<close> to \<open>9\<close>, then the letters in either case.\<close>

definition digitVal :: "char \<Rightarrow> nat option" where
  "digitVal c =
     (let n = (of_char c :: nat) in
      if 48 \<le> n \<and> n \<le> 57 then Some (n - 48)
      else if 97 \<le> n \<and> n \<le> 122 then Some (n - 87)
      else if 65 \<le> n \<and> n \<le> 90 then Some (n - 55)
      else None)"

definition isRadixDigit :: "nat \<Rightarrow> char \<Rightarrow> bool" where
  "isRadixDigit R c = (case digitVal c of None \<Rightarrow> False | Some d \<Rightarrow> d < R)"

definition mathInt :: "nat \<Rightarrow> string \<Rightarrow> nat" where
  "mathInt R z = foldl (\<lambda>acc c. acc * R + (case digitVal c of None \<Rightarrow> 0 | Some d \<Rightarrow> d)) 0 z"

text \<open>
  \<open>parseInt(string)\<close> with no radix argument: leading white space is dropped, one sign is
  read, a prefix \<open>0x\<close> or \<open>0X\<close> selects radix 16 (otherwise 10), and the longest run of
  digits of the radix is the value; no digit at all gives \<open>NaN\<close>. Whatever follows the
  digits is ignored. The value of the digits is rounded to binary64: beyond \<open>2^53\<close> it is
  the nearest value, and a text of some 310 digits or more gives an infinity. (The language
  lets an engine read only the first 20 decimal digits and take the others for zeros; the
  model keeps them all, as the common engines do.)
\<close>

definition parseInt :: "string \<Rightarrow> number" where
  "parseInt inputString =
     (let S = trimStart inputString;
          sign = (if S \<noteq> [] \<and> hd S = CHR ''-'' then (-1::int) else 1);
          S1 = (if S \<noteq> [] \<and> (hd S = CHR ''+'' \<or> hd S = CHR ''-'') then tl S else S);
          hex = (2 \<le> length S1 \<and> (take 2 S1 = ''0x'' \<or> take 2 S1 = ''0X''));
          R = (if hex then 16 else 10);
          S2 = (if hex then drop 2 S1 else S1);
          Z = takeWhile (isRadixDigit R) S2
      in if Z = [] then NaN else round64 (of_int (sign * int (mathInt R Z))))"

text \<open>The decimal digits of a natural number, as \<open>String(n)\<close> prints an integer.\<close>

definition digitChar :: "nat \<Rightarrow> char" where
  "digitChar d =
     (if d = 0 then CHR ''0'' else if d = 1 then CHR ''1'' else if d = 2 then CHR ''2''
      else if d = 3 then CHR ''3'' else if d = 4 then CHR ''4'' else if d = 5 then CHR ''5''
      else if d = 6 then CHR ''6'' else if d = 7 then CHR ''7'' else if d = 8 then CHR ''8''
      else CHR ''9'')"

fun decimal :: "nat \<Rightarrow> string" where
  "decimal n = (if n < 10 then [digitChar n] else decimal (n div 10) @ [digitChar (n mod 10)])"

declare decimal.simps [simp del]

definition showInt :: "int \<Rightarrow> string" where
  "showInt i = (if i < 0 then ''-'' @ decimal (nat (- i)) else decimal (nat i))"

subsection \<open>Records of the page\<close>

text \<open>
  An order line as the page builds it: \<open>{ itemMongoId, quantity, price }\<close>. A property that
  is missing or \<open>undefined\<close> is \<open>None\<close>.
\<close>

record line =
  itemMongoId :: string
  quantity :: "number option"
  price :: "number option"

text \<open>A catalog item; \<open>item_id\<close> is the property \<open>_id\<close>, \<open>item_price\<close> the property \<open>price\<close>.\<close>

record item =
  item_id :: string
  itemId :: string
  item_name :: string
  item_price :: "number option"
  item_cost :: "number option"
  item_photo :: string

text \<open>
  An order as the server returns it; \<open>order_id\<close> is \<open>_id\<close>, the other fields are the
  properties \<open>orderId\<close>, \<open>customerId\<close>, \<open>status\<close> and \<open>items\<close>. Whatever else the server
  puts into the object is the extension part of the record.
\<close>

record order =
  order_id :: string
  order_orderId :: string
  order_customerId :: string
  order_status :: string
  order_items :: "line list option"

text \<open>The order form \<open>{ customerId, orderId, status }\<close> and the item form.\<close>

record order_form =
  customerId :: string
  orderId :: string
  status :: string

record item_form =
  form_name :: string
  form_price :: string
  form_cost :: string
  form_photo :: string
  form_itemId :: string

text \<open>
  A request as the handlers send it with \<open>fetch\<close>: method, path, the bearer token of the
  \<open>Authorization\<close> header and the object that is sent as JSON.
\<close>

record 'b request =
  req_method :: string
  req_url :: string
  req_bearer :: string
  req_body :: 'b

text \<open>The body of the order submission and of the status change.\<close>

record order_body =
  body_customerId :: string
  body_orderId :: string
  body_status :: string
  body_items :: "line list"

record status_body =
  new_status :: string

text \<open>
  The state cells the handlers below read or write; the remaining cells (login fields,
  page, customers and so on) are the extension part of the record.
\<close>

record 'o state =
  token :: string
  items :: "item list"
  orders :: "'o order_scheme list"
  itemForm :: item_form
  orderForm :: order_form
  orderItems :: "line list"

subsection \<open>Order helpers\<close>

text \<open>
  \<open>toggleItemInOrder(item)\<close>: look for a line of the item; if there is one, keep the lines
  of the other items, otherwise append a line with quantity 1 and the item's price.
\<close>

definition toggleItemInOrder :: "item \<Rightarrow> ('o, 'z) state_scheme \<Rightarrow> ('o, 'z) state_scheme" where
  "toggleItemInOrder it s =
     (case find (\<lambda>i. itemMongoId i = item_id it) (orderItems s) of
        Some existing \<Rightarrow>
          s\<lparr>orderItems := filter (\<lambda>i. itemMongoId i \<noteq> item_id it) (orderItems s)\<rparr>
      | None \<Rightarrow>
          s\<lparr>orderItems := orderItems s @
               [\<lparr>itemMongoId = item_id it, quantity = Some (Num 1), price = item_price it\<rparr>]\<rparr>)"

text \<open>
  \<open>updateItemQty(id, qty)\<close>: every line of the item gets the quantity
  \<open>parseInt(qty) || 1\<close>, the other lines are kept.
\<close>

definition updateItemQty :: "string \<Rightarrow> string \<Rightarrow> ('o, 'z) state_scheme \<Rightarrow> ('o, 'z) state_scheme" where
  "updateItemQty ident qty s =
     s\<lparr>orderItems :=
         map (\<lambda>i. if itemMongoId i = ident
                  then i\<lparr>quantity := Some (js_or (parseInt qty) (Num 1))\<rparr> else i)
             (orderItems s)\<rparr>"

subsection \<open>Generated codes\<close>

text \<open>
  Both \<open>createItem\<close> and \<open>createOrder\<close> compute the code they submit in the same way:
  the identifier of the form when \<open>id && id.trim() !== ''\<close> holds, otherwise the prefix
  (\<open>ITEM_\<close> or \<open>ORD_\<close>) followed by \<open>Date.now()\<close>, an integer (the milliseconds since
  the epoch) that the template prints in decimal.
\<close>

definition generateCode :: "string \<Rightarrow> string \<Rightarrow> int \<Rightarrow> string" where
  "generateCode prefix ident now =
     (if ident \<noteq> [] \<and> trim ident \<noteq> [] then ident else prefix @ showInt now)"

subsection \<open>Handlers that talk to the server\<close>

text \<open>
  The server is a function from the request to the parsed answer; \<open>None\<close> stands for a
  rejected promise (\<open>fetch\<close> fails, or the body is not JSON), after which the handler does
  nothing more. A handler returns the request it sent, if any, and the state it leaves.
\<close>

definition createItem ::
  "int \<Rightarrow> (item_form request \<Rightarrow> item option) \<Rightarrow> ('o, 'z) state_scheme \<Rightarrow>
     item_form request \<times> ('o, 'z) state_scheme" where
  "createItem now respond s =
     (let code = generateCode ''ITEM_'' (form_itemId (itemForm s)) now;
          body = (itemForm s)\<lparr>form_itemId := code\<rparr>;
          req = \<lparr>req_method = ''POST'', req_url = ''/api/items'', req_bearer = token s,
                 req_body = body\<rparr>
      in case respond req of
           None \<Rightarrow> (req, s)
         | Some data \<Rightarrow>
             (req, s\<lparr>items := data # items s,
                      itemForm := \<lparr>form_name = [], form_price = [], form_cost = [],
                                   form_photo = [], form_itemId = []\<rparr>\<rparr>))"

definition createOrder ::
  "int \<Rightarrow> (order_body request \<Rightarrow> 'o order_scheme option) \<Rightarrow> ('o, 'z) state_scheme \<Rightarrow>
     order_body request option \<times> ('o, 'z) state_scheme" where
  "createOrder now respond s =
     (if customerId (orderForm s) = [] \<or> length (orderItems s) = 0 then (None, s)
      else
        let code = generateCode ''ORD_'' (orderId (orderForm s)) now;
            body = \<lparr>body_customerId = customerId (orderForm s), body_orderId = code,
                    body_status = status (orderForm s), body_items = orderItems s\<rparr>;
            req = \<lparr>req_method = ''POST'', req_url = ''/api/orders'', req_bearer = token s,
                   req_body = body\<rparr>
        in case respond req of
             None \<Rightarrow> (Some req, s)
           | Some data \<Rightarrow>
               (Some req,
                s\<lparr>orders := data # orders s,
                  orderForm := \<lparr>customerId = [], orderId = [], status = ''Pending''\<rparr>,
                  orderItems := []\<rparr>))"

text \<open>
  \<open>updateOrderStatus(orderId, newStatus)\<close> awaits the request below and then maps the
  orders; the answer itself is not read, so any answer, of whatever HTTP status, lets the
  handler go on.
\<close>

definition statusRequest ::
  "string \<Rightarrow> string \<Rightarrow> ('o, 'z) state_scheme \<Rightarrow> status_body request" where
  "statusRequest ident newStatus s =
     \<lparr>req_method = ''PATCH'', req_url = ''/api/orders/'' @ ident, req_bearer = token s,
      req_body = \<lparr>new_status = newStatus\<rparr>\<rparr>"

definition updateOrderStatus ::
  "string \<Rightarrow> string \<Rightarrow> (status_body request \<Rightarrow> unit option) \<Rightarrow> ('o, 'z) state_scheme \<Rightarrow>
     status_body request \<times> ('o, 'z) state_scheme" where
  "updateOrderStatus ident newStatus respond s =
     (let req = statusRequest ident newStatus s
      in case respond req of
           None \<Rightarrow> (req, s)
         | Some _ \<Rightarrow>
             (req, s\<lparr>orders :=
                      map (\<lambda>ord. if order_id ord = ident then ord\<lparr>order_status := newStatus\<rparr> else ord)
                          (orders s)\<rparr>))"

subsection \<open>Totals of an order\<close>

text \<open>
  \<open>x.toFixed(f)\<close>: a \<open>RangeError\<close> unless \<open>0 \<le> f \<le> 100\<close>; \<open>NaN\<close> and the infinities print
  as themselves; a value of magnitude \<open>10^21\<close> or more is printed in exponent notation,
  which is kept symbolic here; otherwise the text is that of the integer \<open>n\<close> nearest to \<open>x * 10^f\<close> (the larger
  one of two), padded with zeros to at least \<open>f + 1\<close> digits, with a point before the last
  \<open>f\<close> digits and the sign in front.
\<close>

datatype error = RangeError

datatype fixed_text = Fixed string | Exponential rat

definition toFixed :: "int \<Rightarrow> number \<Rightarrow> error + fixed_text" where
  "toFixed f x =
     (if f < 0 \<or> 100 < f then Inl RangeError
      else case x of
        NaN \<Rightarrow> Inr (Fixed ''NaN'')
      | PlusInf \<Rightarrow> Inr (Fixed ''Infinity'')
      | MinusInf \<Rightarrow> Inr (Fixed ''-Infinity'')
      | Num r \<Rightarrow>
          (let sgn = (if r < 0 then ''-'' else []);
               a = \<bar>r\<bar>;
               d = nat f
           in if 10 ^ 21 \<le> a then Inr (Exponential r)
              else
                let n = nat \<lfloor>a * 10 ^ d + 1 / 2\<rfloor>;
                    m = decimal n;
                    m1 = (if length m \<le> d then replicate (d + 1 - length m) CHR ''0'' @ m else m);
                    k = length m1
                in Inr (Fixed (sgn @ (if d = 0 then m1
                                      else take (k - d) m1 @ ''.'' @ drop (k - d) m1)))))"

text \<open>
  The price of a line is a number or missing. On a number, \<open>parseFloat\<close> first prints it,
  as the shortest decimal that reads back as the same number (\<open>NaN\<close> as the text
  \<open>NaN\<close>, an infinity as \<open>Infinity\<close>), and then parses the text: it returns its argument.
\<close>

definition parseFloat :: "number \<Rightarrow> number" where
  "parseFloat x = x"

text \<open>
  The two reductions of the order card, over \<open>o.items\<close>:
  \<open>totalQty = o.items?.reduce((sum, i) => sum + (i.quantity || 1), 0) || 0\<close> and
  \<open>totalPrice = o.items?.reduce((sum, i) => sum + (i.quantity || 1) * parseFloat(i.price || 0), 0).toFixed(2)\<close>.
  When \<open>o.items\<close> is missing, \<open>?.\<close> skips the rest of the chain and \<open>totalPrice\<close> is
  \<open>undefined\<close> (\<open>None\<close>).
\<close>

record totals =
  totalQty :: number
  totalPrice :: "fixed_text option"

definition sumQty :: "line list \<Rightarrow> number" where
  "sumQty ls = foldl (\<lambda>sum i. js_add sum (js_or_opt (quantity i) (Num 1))) (Num 0) ls"

definition sumPrice :: "line list \<Rightarrow> number" where
  "sumPrice ls =
     foldl (\<lambda>sum i. js_add sum (js_mul (js_or_opt (quantity i) (Num 1))
                                     (parseFloat (js_or_opt (price i) (Num 0)))))
           (Num 0) ls"

definition computeTotals :: "line list option \<Rightarrow> error + totals" where
  "computeTotals its =
     (case its of
        None \<Rightarrow> Inr \<lparr>totalQty = Num 0, totalPrice = None\<rparr>
      | Some ls \<Rightarrow>
          (case toFixed 2 (sumPrice ls) of
             Inl e \<Rightarrow> Inl e
           | Inr t \<Rightarrow> Inr \<lparr>totalQty = js_or (sumQty ls) (Num 0), totalPrice = Some t\<rparr>))"

subsection \<open>Initial state and sample data\<close>

text \<open>The state of the first render, from the initial values of the state cells.\<close>

definition initial :: "unit state" where
  "initial =
     \<lparr>token = [], items = [], orders = [],
      itemForm = \<lparr>form_name = [], form_price = [], form_cost = [], form_photo = [],
                  form_itemId = []\<rparr>,
      orderForm = \<lparr>customerId = [], orderId = [], status = ''Pending''\<rparr>,
      orderItems = []\<rparr>"

definition pen :: item where
  "pen = \<lparr>item_id = ''A'', itemId = ''I1'', item_name = ''Pen'', item_price = Some (Num 10),
           item_cost = Some (Num 4), item_photo = []\<rparr>"

definition penLine :: line where
  "penLine = \<lparr>itemMongoId = ''A'', quantity = Some (Num 3), price = Some (Num 10)\<rparr>"

definition inkLine :: line where
  "inkLine = \<lparr>itemMongoId = ''B'', quantity = Some (Num 1), price = Some (Num (11 / 2))\<rparr>"

definition order1 :: order where
  "order1 = \<lparr>order_id = ''o1'', order_orderId = ''ORD_1'', order_customerId = ''c1'',
              order_status = ''Pending'', order_items = Some [penLine]\<rparr>"

definition order2 :: order where
  "order2 = \<lparr>order_id = ''o2'', order_orderId = ''ORD_2'', order_customerId = ''c2'',
              order_status = ''Pending'', order_items = Some [inkLine]\<rparr>"

subsection \<open>The totals in the words of the specification\<close>

text \<open>
  The quantity of a line with a missing or falsy quantity counted as 1, and its price with
  a missing or falsy price counted as 0, for a line whose quantity and price are finite or
  missing.
\<close>

definition finiteLine :: "line \<Rightarrow> bool" where
  "finiteLine l =
     (quantity l \<noteq> Some PlusInf \<and> quantity l \<noteq> Some MinusInf \<and>
      price l \<noteq> Some PlusInf \<and> price l \<noteq> Some MinusInf)"

definition countedQty :: "line \<Rightarrow> rat" where
  "countedQty l = (case quantity l of Some (Num r) \<Rightarrow> if r = 0 then 1 else r | _ \<Rightarrow> 1)"

definition countedPrice :: "line \<Rightarrow> rat" where
  "countedPrice l = (case price l of Some (Num r) \<Rightarrow> r | _ \<Rightarrow> 0)"


text \<open>
  A run of the two reductions over lines is exact when every line is finite and no step
  is rounded: not the sum of the quantities so far, not the product of quantity and price,
  not the sum of the products so far. The two arguments are the sums before the lines.
\<close>

fun exactRun :: "rat \<Rightarrow> rat \<Rightarrow> line list \<Rightarrow> bool" where
  "exactRun sq sp [] = True"
| "exactRun sq sp (i # ls) =
     (finiteLine i \<and>
      round64 (sq + countedQty i) = Num (sq + countedQty i) \<and>
      round64 (countedQty i * countedPrice i) = Num (countedQty i * countedPrice i) \<and>
      round64 (sp + countedQty i * countedPrice i) = Num (sp + countedQty i * countedPrice i) \<and>
      exactRun (sq + countedQty i) (sp + countedQty i * countedPrice i) ls)"


section \<open>Evaluation rules\<close>

lemma floor_rat_numeral_divide: "\<lfloor>numeral a / numeral b :: rat\<rfloor> = numeral a div numeral b"
  by (metis floor_divide_of_int_eq of_int_numeral)

lemma decimal_small: "n < 10 \<Longrightarrow> decimal n = [digitChar n]"
  by (simp add: decimal.simps)

lemma decimal_big: "\<not> n < 10 \<Longrightarrow> decimal n = decimal (n div 10) @ [digitChar (n mod 10)]"
  by (subst decimal.simps) simp

lemma expo_up: "2 \<le> a \<Longrightarrow> expo a = expo (a / 2) + 1"
  by (subst expo.simps) simp

lemma expo_down: "0 < a \<Longrightarrow> a < 1 \<Longrightarrow> expo a = expo (a * 2) - 1"
  by (subst expo.simps) simp

lemma expo_unit: "1 \<le> a \<Longrightarrow> a < 2 \<Longrightarrow> expo a = 0"
  by (subst expo.simps) simp

lemmas round64_eval = round64_def pow2_def roundHalfEven_def expo_up expo_down expo_unit
  floor_rat_numeral_divide Let_def

lemmas parseInt_eval = parseInt_def trimStart_def isWhiteSpace_def isRadixDigit_def digitVal_def
  mathInt_def round64_eval

lemmas totals_eval = computeTotals_def sumQty_def sumPrice_def toFixed_def parseFloat_def
  js_or_opt_def js_or_def truthy_def decimal_small decimal_big digitChar_def round64_eval

section \<open>The exponent of a positive number\<close>

text \<open>\<open>expo\<close> finds the binade: a positive \<open>a\<close> lies between \<open>2^(expo a)\<close> and the next power.\<close>

lemma pow2_step: "pow2 (k + 1) = 2 * pow2 k"
proof (cases "0 \<le> k")
  case True
  then have "nat (k + 1) = Suc (nat k)" by simp
  then show ?thesis using True by (simp add: pow2_def)
next
  case False
  define m where "m = nat (- k) - 1"
  have k: "k = - int (Suc m)"
    using False by (simp add: m_def)
  show ?thesis
  proof (cases m)
    case 0
    then show ?thesis by (simp add: k pow2_def)
  next
    case (Suc j)
    have kk: "k + 1 = - int (Suc j)" by (simp add: k Suc)
    have "pow2 (k + 1) = pow2 (- int (Suc j))"
      by (simp only: kk)
    also have "\<dots> = 1 / 2 ^ Suc j"
      by (simp add: pow2_def nat_add_distrib)
    finally have up: "pow2 (k + 1) = 1 / 2 ^ Suc j" .
    have "pow2 k = pow2 (- int (Suc (Suc j)))"
      by (simp only: k Suc)
    also have "\<dots> = 1 / 2 ^ Suc (Suc j)"
      by (simp add: pow2_def nat_add_distrib)
    finally show ?thesis
      using up by simp
  qed
qed

lemma expo_bounds: "0 < a \<Longrightarrow> pow2 (expo a) \<le> a \<and> a < pow2 (expo a + 1)"
proof (induction a rule: expo.induct)
  case (1 a)
  show ?case
  proof (cases "2 \<le> a")
    case True
    then have ih: "pow2 (expo (a / 2)) \<le> a / 2 \<and> a / 2 < pow2 (expo (a / 2) + 1)"
      using 1 by simp
    have e: "expo a = expo (a / 2) + 1"
      using True by (rule expo_up)
    have "pow2 (expo a) = 2 * pow2 (expo (a / 2))"
      unfolding e by (rule pow2_step)
    moreover have "pow2 (expo a + 1) = 2 * pow2 (expo (a / 2) + 1)"
      unfolding e by (rule pow2_step)
    ultimately show ?thesis
      using ih by simp
  next
    case False
    show ?thesis
    proof (cases "a < 1")
      case True
      then have ih: "pow2 (expo (a * 2)) \<le> a * 2 \<and> a * 2 < pow2 (expo (a * 2) + 1)"
        using 1 False by simp
      have e: "expo a = expo (a * 2) - 1"
        using 1(3) True by (rule expo_down)
      have "pow2 (expo (a * 2)) = 2 * pow2 (expo a)"
        using pow2_step [of "expo (a * 2) - 1"] by (simp add: e)
      moreover have "pow2 (expo (a * 2) + 1) = 2 * pow2 (expo a + 1)"
        using pow2_step [of "expo (a * 2)"] by (simp add: e)
      ultimately show ?thesis
        using ih by simp
    next
      case False
      then have "expo a = 0"
        using \<open>\<not> 2 \<le> a\<close> by (simp add: expo_unit)
      then show ?thesis
        using False \<open>\<not> 2 \<le> a\<close> by (simp add: pow2_def)
    qed
  qed
qed

section \<open>Blank strings and printed integers\<close>

lemma trim_Nil_iff: "trim s = [] \<longleftrightarrow> (\<forall>c\<in>set s. isWhiteSpace c)"
proof
  assume "trim s = []"
  then have all: "\<forall>c\<in>set (dropWhile isWhiteSpace s). isWhiteSpace c"
    by (simp add: trim_def)
  have "dropWhile isWhiteSpace s = []"
  proof (rule ccontr)
    assume ne: "dropWhile isWhiteSpace s \<noteq> []"
    then have "\<not> isWhiteSpace (hd (dropWhile isWhiteSpace s))"
      by (rule hd_dropWhile)
    moreover have "hd (dropWhile isWhiteSpace s) \<in> set (dropWhile isWhiteSpace s)"
      using ne by (rule hd_in_set)
    ultimately show False
      using all by blast
  qed
  then show "\<forall>c\<in>set s. isWhiteSpace c"
    by simp
next
  assume "\<forall>c\<in>set s. isWhiteSpace c"
  then show "trim s = []"
    by (auto simp: trim_def dest: set_dropWhileD)
qed

lemma digitChar_not_space: "\<not> isWhiteSpace (digitChar d)"
  by (simp add: digitChar_def isWhiteSpace_def)

lemma decimal_last: "decimal n \<noteq> [] \<and> last (decimal n) = digitChar (n mod 10)"
  by (subst (1 2) decimal.simps) simp

lemma decimal_has_digit: "\<exists>c\<in>set (decimal n). \<not> isWhiteSpace c"
proof -
  have ne: "decimal n \<noteq> []" and l: "last (decimal n) = digitChar (n mod 10)"
    using decimal_last [of n] by simp_all
  from ne have "last (decimal n) \<in> set (decimal n)"
    by (rule last_in_set)
  moreover have "\<not> isWhiteSpace (last (decimal n))"
    unfolding l by (rule digitChar_not_space)
  ultimately show ?thesis
    by blast
qed

lemma showInt_has_digit: "\<exists>c\<in>set (showInt i). \<not> isWhiteSpace c"
  using decimal_has_digit by (auto simp: showInt_def)

section \<open>The selected lines\<close>

lemma find_line_None:
  "(find (\<lambda>i. itemMongoId i = k) ls = None) = (\<forall>l\<in>set ls. itemMongoId l \<noteq> k)"
  by (auto simp: find_None_iff)

lemma orderItems_toggle:
  "orderItems (toggleItemInOrder it s) =
     (if \<exists>l\<in>set (orderItems s). itemMongoId l = item_id it
      then filter (\<lambda>i. itemMongoId i \<noteq> item_id it) (orderItems s)
      else orderItems s @
             [\<lparr>itemMongoId = item_id it, quantity = Some (Num 1), price = item_price it\<rparr>])"
proof (cases "find (\<lambda>i. itemMongoId i = item_id it) (orderItems s)")
  case None
  then have "\<forall>l\<in>set (orderItems s). itemMongoId l \<noteq> item_id it"
    by (simp only: find_line_None)
  then show ?thesis
    using None by (simp add: toggleItemInOrder_def)
next
  case (Some existing)
  then have "\<not> (\<forall>l\<in>set (orderItems s). itemMongoId l \<noteq> item_id it)"
    by (simp only: find_line_None [symmetric]) simp
  then show ?thesis
    using Some by (simp add: toggleItemInOrder_def)
qed

lemma toggle_frame:
  "toggleItemInOrder it s = s\<lparr>orderItems := orderItems (toggleItemInOrder it s)\<rparr>"
  by (simp add: toggleItemInOrder_def split: option.splits)

lemma orderItems_update:
  "map itemMongoId (orderItems (updateItemQty ident qty s)) = map itemMongoId (orderItems s)"
  by (simp add: updateItemQty_def comp_def cong: map_cong)

lemma orderItems_createOrder:
  "orderItems (snd (createOrder now respond s)) = orderItems s \<or>
   orderItems (snd (createOrder now respond s)) = []"
  by (simp add: createOrder_def Let_def split: option.splits)

lemma toFixed_two: "\<exists>t. toFixed 2 x = Inr t"
  by (cases x) (simp_all add: toFixed_def Let_def)

section \<open>Quantities\<close>

text \<open>
  C1. \<open>updateItemQty\<close> replaces the quantity of the item's line by \<open>parseInt(qty) || 1\<close>. The
  fallback is taken only when the parsed value is falsy, that is \<open>NaN\<close> or zero: a negative
  value is truthy and is stored as it is. On the text \<open>-5\<close>, which the quantity field can
  deliver although it is declared with \<open>min = 1\<close>, the line of the item ends with quantity
  \<open>-5\<close>, not with a positive one.
\<close>

theorem updateItemQty_negative_quantity:
  "orderItems (updateItemQty ''A'' ''-5'' (initial\<lparr>orderItems := [penLine, inkLine]\<rparr>))
     = [\<lparr>itemMongoId = ''A'', quantity = Some (Num (- 5)), price = Some (Num 10)\<rparr>, inkLine]"
  by (simp add: updateItemQty_def initial_def penLine_def inkLine_def parseInt_eval js_or_def
      truthy_def)

section \<open>Toggling an item\<close>

text \<open>
  C2, as amended. When no selected line refers to the item, toggling the item twice gives
  back the state it started from: the first toggle appends the only line of the item and
  the second removes exactly that line. When the item is selected, toggling it twice gives
  the lines of the other items followed by one new line of the item, with quantity 1 and
  the item's price.
\<close>

theorem toggle_twice:
  "(if \<exists>l\<in>set (orderItems s). itemMongoId l = item_id it
    then orderItems (toggleItemInOrder it (toggleItemInOrder it s)) =
           filter (\<lambda>i. itemMongoId i \<noteq> item_id it) (orderItems s) @
             [\<lparr>itemMongoId = item_id it, quantity = Some (Num 1), price = item_price it\<rparr>]
    else toggleItemInOrder it (toggleItemInOrder it s) = s)"
proof (cases "\<exists>l\<in>set (orderItems s). itemMongoId l = item_id it")
  case True
  then show ?thesis
    by (simp add: orderItems_toggle)
next
  case False
  then have keep: "filter (\<lambda>i. itemMongoId i \<noteq> item_id it) (orderItems s) = orderItems s"
    by (simp add: filter_id_conv)
  have "orderItems (toggleItemInOrder it (toggleItemInOrder it s)) = orderItems s"
    using False by (simp add: orderItems_toggle keep)
  moreover have "toggleItemInOrder it (toggleItemInOrder it s)
      = s\<lparr>orderItems := orderItems (toggleItemInOrder it (toggleItemInOrder it s))\<rparr>"
    by (subst toggle_frame, subst (2) toggle_frame) simp
  ultimately have "toggleItemInOrder it (toggleItemInOrder it s) = s"
    by simp
  then show ?thesis
    using False by simp
qed

theorem toggle_twice_witness:
  "toggleItemInOrder pen (toggleItemInOrder pen (initial\<lparr>orderItems := [inkLine]\<rparr>))
     = initial\<lparr>orderItems := [inkLine]\<rparr> \<and>
   orderItems (toggleItemInOrder pen
       (toggleItemInOrder pen (initial\<lparr>orderItems := [penLine, inkLine]\<rparr>)))
     = [inkLine, \<lparr>itemMongoId = ''A'', quantity = Some (Num 1), price = Some (Num 10)\<rparr>]"
  using toggle_twice [of "initial\<lparr>orderItems := [inkLine]\<rparr>" pen]
    toggle_twice [of "initial\<lparr>orderItems := [penLine, inkLine]\<rparr>" pen]
  by (simp add: initial_def inkLine_def penLine_def pen_def)

text \<open>
  The claim as it was stated fails when the item is selected: the first toggle removes its
  line, the second appends a fresh one, with quantity 1 and at the end. With the pen
  selected three times, two toggles leave it selected once.
\<close>

theorem toggle_twice_counterexample:
  "orderItems (toggleItemInOrder pen (toggleItemInOrder pen (initial\<lparr>orderItems := [penLine]\<rparr>)))
     = [\<lparr>itemMongoId = ''A'', quantity = Some (Num 1), price = Some (Num 10)\<rparr>] \<and>
   orderItems (toggleItemInOrder pen (toggleItemInOrder pen (initial\<lparr>orderItems := [penLine]\<rparr>)))
     \<noteq> orderItems (initial\<lparr>orderItems := [penLine]\<rparr>)"
  by (simp add: toggleItemInOrder_def initial_def penLine_def pen_def)

text \<open>
  C3. If a selected line refers to the item, \<open>toggleItemInOrder\<close> keeps exactly the lines of
  the other items, so that no line of the item is left; otherwise it appends one line with
  the item's identity, quantity 1 and the item's price, which is then the only line of the
  item. In both cases the lines of the other items are the same as before, in the same
  order, and no other state cell changes.
\<close>

theorem toggleItemInOrder_effect:
  "(if \<exists>l\<in>set (orderItems s). itemMongoId l = item_id it
    then orderItems (toggleItemInOrder it s) =
           filter (\<lambda>i. itemMongoId i \<noteq> item_id it) (orderItems s) \<and>
         filter (\<lambda>i. itemMongoId i = item_id it) (orderItems (toggleItemInOrder it s)) = []
    else orderItems (toggleItemInOrder it s) =
           orderItems s @
             [\<lparr>itemMongoId = item_id it, quantity = Some (Num 1), price = item_price it\<rparr>] \<and>
         filter (\<lambda>i. itemMongoId i = item_id it) (orderItems (toggleItemInOrder it s)) =
             [\<lparr>itemMongoId = item_id it, quantity = Some (Num 1), price = item_price it\<rparr>]) \<and>
   filter (\<lambda>i. itemMongoId i \<noteq> item_id it) (orderItems (toggleItemInOrder it s)) =
     filter (\<lambda>i. itemMongoId i \<noteq> item_id it) (orderItems s) \<and>
   toggleItemInOrder it s = s\<lparr>orderItems := orderItems (toggleItemInOrder it s)\<rparr>"
proof (cases "\<exists>l\<in>set (orderItems s). itemMongoId l = item_id it")
  case True
  then have eq: "orderItems (toggleItemInOrder it s) =
      filter (\<lambda>i. itemMongoId i \<noteq> item_id it) (orderItems s)"
    by (simp add: orderItems_toggle)
  have "filter (\<lambda>i. itemMongoId i = item_id it) (orderItems (toggleItemInOrder it s)) = []"
    unfolding eq by (simp add: filter_empty_conv)
  moreover have "filter (\<lambda>i. itemMongoId i \<noteq> item_id it) (orderItems (toggleItemInOrder it s)) =
      filter (\<lambda>i. itemMongoId i \<noteq> item_id it) (orderItems s)"
    unfolding eq by simp
  ultimately show ?thesis
    using True eq toggle_frame [of it s] by simp
next
  case False
  then have eq: "orderItems (toggleItemInOrder it s) =
      orderItems s @
        [\<lparr>itemMongoId = item_id it, quantity = Some (Num 1), price = item_price it\<rparr>]"
    by (simp add: orderItems_toggle)
  from False have none: "filter (\<lambda>i. itemMongoId i = item_id it) (orderItems s) = []"
    by (simp add: filter_empty_conv)
  have "filter (\<lambda>i. itemMongoId i = item_id it) (orderItems (toggleItemInOrder it s)) =
      [\<lparr>itemMongoId = item_id it, quantity = Some (Num 1), price = item_price it\<rparr>]"
    unfolding eq by (simp add: none)
  moreover have "filter (\<lambda>i. itemMongoId i \<noteq> item_id it) (orderItems (toggleItemInOrder it s)) =
      filter (\<lambda>i. itemMongoId i \<noteq> item_id it) (orderItems s)"
    unfolding eq by simp
  ultimately show ?thesis
    using False eq toggle_frame [of it s] by simp
qed

theorem toggleItemInOrder_effect_witness:
  "orderItems (toggleItemInOrder pen (initial\<lparr>orderItems := [penLine, inkLine]\<rparr>)) = [inkLine] \<and>
   orderItems (toggleItemInOrder pen (initial\<lparr>orderItems := [inkLine]\<rparr>))
     = [inkLine, \<lparr>itemMongoId = ''A'', quantity = Some (Num 1), price = Some (Num 10)\<rparr>]"
  using toggleItemInOrder_effect [of "initial\<lparr>orderItems := [penLine, inkLine]\<rparr>" pen]
    toggleItemInOrder_effect [of "initial\<lparr>orderItems := [inkLine]\<rparr>" pen]
  by (simp add: initial_def inkLine_def penLine_def pen_def)

text \<open>
  C6. When no two selected lines refer to the same item, this also holds after
  \<open>toggleItemInOrder\<close>, after \<open>updateItemQty\<close> and after \<open>createOrder\<close>, the three handlers
  that write the selected lines.
\<close>

theorem unique_lines_preserved:
  assumes "distinct (map itemMongoId (orderItems s))"
  shows "distinct (map itemMongoId (orderItems (toggleItemInOrder it s))) \<and>
         distinct (map itemMongoId (orderItems (updateItemQty ident qty s))) \<and>
         distinct (map itemMongoId (orderItems (snd (createOrder now respond s))))"
proof (intro conjI)
  show "distinct (map itemMongoId (orderItems (toggleItemInOrder it s)))"
    using assms by (auto simp: orderItems_toggle distinct_map_filter)
  show "distinct (map itemMongoId (orderItems (updateItemQty ident qty s)))"
    using assms by (simp only: orderItems_update)
  show "distinct (map itemMongoId (orderItems (snd (createOrder now respond s))))"
    using assms orderItems_createOrder [of now respond s] by auto
qed

theorem unique_lines_preserved_witness:
  "distinct (map itemMongoId
     (orderItems (toggleItemInOrder pen (initial\<lparr>orderItems := [penLine, inkLine]\<rparr>)))) \<and>
   distinct (map itemMongoId
     (orderItems (updateItemQty ''A'' ''7'' (initial\<lparr>orderItems := [penLine, inkLine]\<rparr>)))) \<and>
   distinct (map itemMongoId
     (orderItems (snd (createOrder 1700000000000 (\<lambda>r. Some order1)
        (initial\<lparr>orderItems := [penLine, inkLine]\<rparr>)))))"
proof -
  have "distinct (map itemMongoId (orderItems (initial\<lparr>orderItems := [penLine, inkLine]\<rparr>)))"
    by (simp add: penLine_def inkLine_def)
  then show ?thesis
    by (rule unique_lines_preserved)
qed

section \<open>Generated codes\<close>

text \<open>
  C7. When the identifier of the form is blank (every character of it is white space, the
  empty string included), the code is the prefix followed by the timestamp in decimal; it
  is not blank (\<open>trim\<close> leaves something) and it starts with the prefix. When the identifier
  is not blank, the code is the identifier, unchanged.
\<close>

theorem generateCode_fallback:
  "((\<forall>c\<in>set ident. isWhiteSpace c) \<longrightarrow>
      generateCode prefix ident now = prefix @ showInt now \<and>
      trim (generateCode prefix ident now) \<noteq> [] \<and>
      take (length prefix) (generateCode prefix ident now) = prefix) \<and>
   (\<not> (\<forall>c\<in>set ident. isWhiteSpace c) \<longrightarrow> generateCode prefix ident now = ident)"
proof (intro conjI impI)
  assume blank: "\<forall>c\<in>set ident. isWhiteSpace c"
  then have "trim ident = []"
    by (simp only: trim_Nil_iff)
  then show eq: "generateCode prefix ident now = prefix @ showInt now"
    by (simp add: generateCode_def)
  show "trim (generateCode prefix ident now) \<noteq> []"
    using showInt_has_digit [of now] by (auto simp: eq trim_Nil_iff)
  show "take (length prefix) (generateCode prefix ident now) = prefix"
    by (simp add: eq)
next
  assume "\<not> (\<forall>c\<in>set ident. isWhiteSpace c)"
  then have "trim ident \<noteq> []"
    by (simp add: trim_Nil_iff)
  moreover from this have "ident \<noteq> []"
    by (auto simp: trim_def)
  ultimately show "generateCode prefix ident now = ident"
    by (simp add: generateCode_def)
qed

theorem generateCode_fallback_witness:
  "generateCode ''ORD_'' ''  '' 1700000000000 = ''ORD_1700000000000'' \<and>
   trim (generateCode ''ORD_'' ''  '' 1700000000000) \<noteq> [] \<and>
   generateCode ''ITEM_'' ''A-7'' 1700000000000 = ''A-7''"
  using generateCode_fallback [of "''  ''" "''ORD_''" 1700000000000]
    generateCode_fallback [of "''A-7''" "''ITEM_''" 1700000000000]
  by (simp add: trim_def isWhiteSpace_def showInt_def decimal_small decimal_big digitChar_def)

text \<open>The two handlers submit the code so computed, with their own prefix.\<close>

lemma createItem_submits:
  "form_itemId (req_body (fst (createItem now respond s))) =
     generateCode ''ITEM_'' (form_itemId (itemForm s)) now"
  by (simp add: createItem_def Let_def split: option.splits)

lemma createOrder_submits:
  assumes "customerId (orderForm s) \<noteq> []" and "orderItems s \<noteq> []"
  shows "\<exists>req. fst (createOrder now respond s) = Some req \<and>
     body_orderId (req_body req) = generateCode ''ORD_'' (orderId (orderForm s)) now \<and>
     body_items (req_body req) = orderItems s"
  using assms by (simp add: createOrder_def Let_def split: option.splits)

section \<open>Totals\<close>

text \<open>
  The totals of an order without lines: both reductions return their start value 0, and
  \<open>toFixed(2)\<close> prints it with two decimals.
\<close>

lemma computeTotals_empty:
  "computeTotals (Some []) = Inr \<lparr>totalQty = Num 0, totalPrice = Some (Fixed ''0.00'')\<rparr>"
  by (simp add: totals_eval)

lemma computeTotals_missing:
  "computeTotals None = Inr \<lparr>totalQty = Num 0, totalPrice = None\<rparr>"
  by (simp add: computeTotals_def)











text \<open>
  C5. For the two lines \<open>{quantity: 2, price: 10}\<close> and \<open>{quantity: 1, price: 5.5}\<close>, whatever
  items they refer to, the total quantity is 3 and the total price is printed as \<open>25.50\<close>.
\<close>

theorem computeTotals_example:
  "computeTotals (Some [\<lparr>itemMongoId = a, quantity = Some (Num 2), price = Some (Num 10)\<rparr>,
                        \<lparr>itemMongoId = b, quantity = Some (Num 1), price = Some (Num (11 / 2))\<rparr>])
   = Inr \<lparr>totalQty = Num 3, totalPrice = Some (Fixed ''25.50'')\<rparr>"
  by (simp add: totals_eval)

text \<open>This run is exact: none of its steps is rounded.\<close>

lemma example_run_exact:
  "exactRun 0 0 [\<lparr>itemMongoId = a, quantity = Some (Num 2), price = Some (Num 10)\<rparr>,
                 \<lparr>itemMongoId = b, quantity = Some (Num 1), price = Some (Num (11 / 2))\<rparr>]"
  by (simp add: finiteLine_def countedQty_def countedPrice_def round64_eval)

section \<open>No error is raised, but not every input is sanitised\<close>

text \<open>
  Neither \<open>toggleItemInOrder\<close> nor \<open>updateItemQty\<close> has an operation that can throw on
  lines, items and strings, which is why they are plain functions on the state; the one
  operation of the totals that can throw is \<open>toFixed\<close>, and it is called with 2 digits, so
  the totals are returned for every order, with lines or without.
\<close>

lemma computeTotals_returns: "\<exists>t. computeTotals its = Inr t"
proof (cases its)
  case None
  then show ?thesis by (simp add: computeTotals_def)
next
  case (Some ls)
  obtain t where "toFixed 2 (sumPrice ls) = Inr t"
    using toFixed_two by blast
  then show ?thesis
    using Some by (simp add: computeTotals_def)
qed

text \<open>
  What \<open>updateItemQty\<close> stores: the default 1 for a text that does not parse or parses to
  zero, and the parsed number itself for every other text.
\<close>

lemma updateItemQty_default:
  assumes "parseInt qty = NaN \<or> parseInt qty = Num 0"
  shows "updateItemQty ident qty s =
     s\<lparr>orderItems := map (\<lambda>i. if itemMongoId i = ident then i\<lparr>quantity := Some (Num 1)\<rparr> else i)
                         (orderItems s)\<rparr>"
  using assms by (auto simp: updateItemQty_def js_or_def truthy_def)

lemma updateItemQty_parsed:
  assumes "parseInt qty \<noteq> NaN" and "parseInt qty \<noteq> Num 0"
  shows "updateItemQty ident qty s =
     s\<lparr>orderItems := map (\<lambda>i. if itemMongoId i = ident then i\<lparr>quantity := Some (parseInt qty)\<rparr> else i)
                         (orderItems s)\<rparr>"
proof -
  have "truthy (parseInt qty)"
    using assms by (cases "parseInt qty") (simp_all add: truthy_def)
  then show ?thesis
    by (simp add: updateItemQty_def js_or_def)
qed

lemma updateItemQty_examples:
  "orderItems (updateItemQty ''A'' ''abc'' (initial\<lparr>orderItems := [penLine, inkLine]\<rparr>))
     = [penLine\<lparr>quantity := Some (Num 1)\<rparr>, inkLine] \<and>
   orderItems (updateItemQty ''A'' ''0'' (initial\<lparr>orderItems := [penLine, inkLine]\<rparr>))
     = [penLine\<lparr>quantity := Some (Num 1)\<rparr>, inkLine] \<and>
   orderItems (updateItemQty ''A'' ''7'' (initial\<lparr>orderItems := [penLine, inkLine]\<rparr>))
     = [penLine\<lparr>quantity := Some (Num 7)\<rparr>, inkLine]"
  by (simp add: parseInt_eval updateItemQty_def js_or_def truthy_def initial_def penLine_def
      inkLine_def)

text \<open>A text of 400 digits is read as an infinity, which is truthy and is stored.\<close>

lemma mathInt_nines: "mathInt 10 (replicate n CHR ''9'') = 10 ^ n - 1"
proof (induction n)
  case 0
  then show ?case by (simp add: mathInt_def)
next
  case (Suc n)
  have "replicate (Suc n) CHR ''9'' = replicate n CHR ''9'' @ ''9''"
    by (simp add: replicate_append_same)
  then have "mathInt 10 (replicate (Suc n) CHR ''9'') = mathInt 10 (replicate n CHR ''9'') * 10 + 9"
    by (simp only: mathInt_def foldl_append) (simp add: digitVal_def)
  also have "\<dots> = (10 ^ n - 1) * 10 + 9"
    by (simp only: Suc.IH)
  also have "\<dots> = 10 ^ Suc n - 1"
  proof -
    have "(1::nat) \<le> 10 ^ n" by simp
    then show ?thesis by (simp add: algebra_simps)
  qed
  finally show ?case .
qed

lemma parseInt_long_text: "parseInt (replicate 400 CHR ''9'') = PlusInf"
proof -
  have digit: "isRadixDigit 10 CHR ''9''" and space: "\<not> isWhiteSpace CHR ''9''"
    by (simp_all add: isRadixDigit_def digitVal_def isWhiteSpace_def)
  have two: "replicate 2 CHR ''9'' = ''99''"
    by (simp add: numeral_2_eq_2)
  have "parseInt (replicate 400 CHR ''9'') = round64 (of_int (int (10 ^ 400 - 1)))"
    by (simp add: parseInt_def trimStart_def space digit two mathInt_nines Let_def)
  also have "\<dots> = PlusInf"
    by (simp add: round64_def)
  finally show ?thesis .
qed

text \<open>
  C8. No operation of the three raises an error or rejects its input, but
  \<open>updateItemQty\<close> does not turn every invalid quantity into the default: a negative text
  parses to a truthy number and is stored as it is. After the pen is toggled into the
  order and its quantity is set with the text \<open>-1\<close>, the line holds the quantity \<open>-1\<close>,
  and the totals of these lines are \<open>-1\<close> and \<open>-10.00\<close>.
\<close>

theorem negative_quantity_not_sanitised:
  "orderItems (updateItemQty ''A'' ''-1'' (toggleItemInOrder pen initial))
     = [\<lparr>itemMongoId = ''A'', quantity = Some (Num (- 1)), price = Some (Num 10)\<rparr>] \<and>
   computeTotals (Some (orderItems (updateItemQty ''A'' ''-1'' (toggleItemInOrder pen initial))))
     = Inr \<lparr>totalQty = Num (- 1), totalPrice = Some (Fixed ''-10.00'')\<rparr>"
  by (simp add: toggleItemInOrder_def updateItemQty_def initial_def pen_def parseInt_eval
      totals_eval)

section \<open>Orders\<close>

text \<open>
  C9. When no customer is chosen (the \<open>customerId\<close> of the form is the empty string) or no
  line is selected, \<open>createOrder\<close> sends no request and leaves the whole state as it is, the
  orders, the order form and the selected lines included.
\<close>

theorem createOrder_guard:
  "customerId (orderForm s) = [] \<or> orderItems s = [] \<Longrightarrow> createOrder now respond s = (None, s)"
  by (auto simp: createOrder_def)

theorem createOrder_guard_witness:
  "createOrder 1700000000000 (\<lambda>r. Some order1) (initial\<lparr>orderItems := [penLine]\<rparr>)
     = (None, initial\<lparr>orderItems := [penLine]\<rparr>) \<and>
   createOrder 1700000000000 (\<lambda>r. Some order1)
       (initial\<lparr>orderForm := \<lparr>customerId = ''c1'', orderId = [], status = ''Pending''\<rparr>\<rparr>)
     = (None, initial\<lparr>orderForm := \<lparr>customerId = ''c1'', orderId = [], status = ''Pending''\<rparr>\<rparr>)"
  using createOrder_guard [of "initial\<lparr>orderItems := [penLine]\<rparr>" 1700000000000 "\<lambda>r. Some order1"]
    createOrder_guard [of "initial\<lparr>orderForm := \<lparr>customerId = ''c1'', orderId = [], status = ''Pending''\<rparr>\<rparr>"
      1700000000000 "\<lambda>r. Some order1"]
  by (simp add: initial_def)

text \<open>
  C10. Once the request of \<open>updateOrderStatus\<close> is answered, the orders are as many as
  before and stand in the same places; an order with the given identity has the new status
  and every other field, the extension included, as before; an order with another identity
  is unchanged; and no other state cell changes.
\<close>

theorem updateOrderStatus_effect:
  assumes "respond (statusRequest ident newStatus s) = Some u"
  shows "length (orders (snd (updateOrderStatus ident newStatus respond s))) = length (orders s) \<and>
    (\<forall>k<length (orders s).
       (order_id (orders s ! k) = ident \<longrightarrow>
          orders (snd (updateOrderStatus ident newStatus respond s)) ! k =
            (orders s ! k)\<lparr>order_status := newStatus\<rparr> \<and>
          order_status (orders (snd (updateOrderStatus ident newStatus respond s)) ! k) = newStatus \<and>
          order_id (orders (snd (updateOrderStatus ident newStatus respond s)) ! k) =
            order_id (orders s ! k) \<and>
          order_orderId (orders (snd (updateOrderStatus ident newStatus respond s)) ! k) =
            order_orderId (orders s ! k) \<and>
          order_customerId (orders (snd (updateOrderStatus ident newStatus respond s)) ! k) =
            order_customerId (orders s ! k) \<and>
          order_items (orders (snd (updateOrderStatus ident newStatus respond s)) ! k) =
            order_items (orders s ! k) \<and>
          order.more (orders (snd (updateOrderStatus ident newStatus respond s)) ! k) =
            order.more (orders s ! k)) \<and>
       (order_id (orders s ! k) \<noteq> ident \<longrightarrow>
          orders (snd (updateOrderStatus ident newStatus respond s)) ! k = orders s ! k)) \<and>
    snd (updateOrderStatus ident newStatus respond s) =
      s\<lparr>orders := orders (snd (updateOrderStatus ident newStatus respond s))\<rparr>"
proof -
  have after: "snd (updateOrderStatus ident newStatus respond s) =
      s\<lparr>orders := map (\<lambda>ord. if order_id ord = ident then ord\<lparr>order_status := newStatus\<rparr> else ord)
                       (orders s)\<rparr>"
    using assms by (simp add: updateOrderStatus_def Let_def)
  show ?thesis
    by (simp add: after)
qed

theorem updateOrderStatus_effect_witness:
  "orders (snd (updateOrderStatus ''o2'' ''Completed'' (\<lambda>r. Some ())
       (initial\<lparr>orders := [order1, order2]\<rparr>)))
     = [order1, order2\<lparr>order_status := ''Completed''\<rparr>]"
  using updateOrderStatus_effect [of "\<lambda>r. Some ()" "''o2''" "''Completed''"
      "initial\<lparr>orders := [order1, order2]\<rparr>" "()"]
  by (simp add: updateOrderStatus_def statusRequest_def initial_def order1_def order2_def)

text \<open>When the request fails, the handler stops before it writes the orders.\<close>

lemma updateOrderStatus_sends:
  "fst (updateOrderStatus ident newStatus respond s) = statusRequest ident newStatus s"
  by (simp add: updateOrderStatus_def Let_def split: option.splits)

lemma updateOrderStatus_rejected:
  assumes "respond (statusRequest ident newStatus s) = None"
  shows "snd (updateOrderStatus ident newStatus respond s) = s"
  using assms by (simp add: updateOrderStatus_def Let_def)

end
